theory Spec2Isabelle
  imports Main "HOL-Library.Word" "HOL-Library.Multiset" "HOL-Library.Signed_Division"
    "HOL-Library.List_Lexorder" "HOL-Library.Char_ord"
begin

section \<open>Data model (model.go)\<close>

text \<open>
  \<^verbatim>\<open>type OrderStatus string\<close>: a status is any string; the five constants are the
  recognised values, and the zero value is the empty string.
\<close>

type_synonym OrderStatus = string

definition StatusPending :: OrderStatus where "StatusPending = ''PENDING''"
definition StatusConfirmed :: OrderStatus where "StatusConfirmed = ''CONFIRMED''"
definition StatusShipped :: OrderStatus where "StatusShipped = ''SHIPPED''"
definition StatusDelivered :: OrderStatus where "StatusDelivered = ''DELIVERED''"
definition StatusCanceled :: OrderStatus where "StatusCanceled = ''CANCELED''"

text \<open>
  Go's \<^verbatim>\<open>int64\<close> is a 64-bit word read in two's complement (\<open>sint\<close>); \<open>+\<close>, \<open>-\<close> and
  \<open>*\<close> wrap around. Go's \<^verbatim>\<open>int\<close> has 64 bits on the 64-bit platforms, so that
  \<^verbatim>\<open>int64(x)\<close> is the identity on it. A \<^verbatim>\<open>time.Time\<close> is an instant on a line;
  \<^verbatim>\<open>After\<close> and \<^verbatim>\<open>Before\<close> are \<open>>\<close> and \<open><\<close> on it.
\<close>

type_synonym int64 = "64 word"
type_synonym go_int = "64 word"
type_synonym time = int

record OrderLine =
  ProductID :: string
  Quantity :: go_int
  UnitPriceCents :: int64
  LineTotalCents :: int64

text \<open>
  \<^verbatim>\<open>Attributes\<close> is a Go map, which may be \<^verbatim>\<open>nil\<close> (\<open>None\<close>); \<^verbatim>\<open>DeletedAt\<close> is a
  pointer, \<^verbatim>\<open>nil\<close> when the order is not deleted.
\<close>

record Order =
  ID :: string
  CustomerID :: string
  Currency :: string
  Lines :: "OrderLine list"
  Attributes :: "(string \<rightharpoonup> string) option"
  TotalCents :: int64
  Status :: OrderStatus
  Version :: int64
  CreatedAt :: time
  UpdatedAt :: time
  DeletedAt :: "time option"

text \<open>The zero value \<^verbatim>\<open>Order{}\<close>.\<close>

definition zeroOrder :: Order where
  "zeroOrder = \<lparr>ID = [], CustomerID = [], Currency = [], Lines = [], Attributes = None,
     TotalCents = 0, Status = [], Version = 0, CreatedAt = 0, UpdatedAt = 0,
     DeletedAt = None\<rparr>"

record ListOptions =
  opt_Status :: "OrderStatus option"
  opt_CustomerID :: "string option"
  opt_CreateFrom :: "time option"
  opt_CreateTo :: "time option"
  opt_Page :: go_int
  opt_PageSize :: go_int

record ListResult =
  Items :: "Order list"
  Page :: go_int
  PageSize :: go_int
  TotalItems :: go_int
  TotalPages :: go_int

section \<open>Errors and execution contexts\<close>

text \<open>
  The five error values of the service, the two errors a \<^verbatim>\<open>context.Context\<close> reports,
  and the runtime panic of a slice expression whose bounds are out of range.
\<close>

datatype error =
    ErrNotFound
  | ErrConflict
  | ErrInvalidInput
  | ErrInvalidState
  | ErrIdempotency
  | Canceled
  | DeadlineExceeded
  | PanicSliceBounds

datatype go_context = Background | CtxCanceled | CtxDeadlineExceeded

text \<open>\<^verbatim>\<open>ctx.Err()\<close> and whether the channel \<^verbatim>\<open>ctx.Done()\<close> is closed.\<close>

fun ctx_Err :: "go_context \<Rightarrow> error option" where
  "ctx_Err Background = None"
| "ctx_Err CtxCanceled = Some Canceled"
| "ctx_Err CtxDeadlineExceeded = Some DeadlineExceeded"

fun ctx_Done :: "go_context \<Rightarrow> bool" where
  "ctx_Done Background = False"
| "ctx_Done CtxCanceled = True"
| "ctx_Done CtxDeadlineExceeded = True"

definition ctxErr :: "go_context \<Rightarrow> error option" where
  "ctxErr ctx = (if ctx_Done ctx then ctx_Err ctx else None)"

section \<open>Helper functions\<close>

definition cloneMap :: "(string \<rightharpoonup> string) option \<Rightarrow> (string \<rightharpoonup> string) option" where
  "cloneMap m = (case m of None \<Rightarrow> None | Some f \<Rightarrow> Some (\<lambda>k. f k))"

definition cloneOrder :: "Order \<Rightarrow> Order" where
  "cloneOrder o' =
     \<lparr>ID = ID o', CustomerID = CustomerID o', Currency = Currency o',
      Lines = take (length (Lines o')) (Lines o'),
      Attributes = cloneMap (Attributes o'),
      TotalCents = TotalCents o', Status = Status o', Version = Version o',
      CreatedAt = CreatedAt o', UpdatedAt = UpdatedAt o',
      DeletedAt = (case DeletedAt o' of None \<Rightarrow> None | Some t \<Rightarrow> Some t)\<rparr>"

definition isTransitionAllowed :: "OrderStatus \<Rightarrow> OrderStatus \<Rightarrow> bool" where
  "isTransitionAllowed from' to' =
     (if from' = StatusPending then to' = StatusConfirmed \<or> to' = StatusCanceled
      else if from' = StatusConfirmed then to' = StatusShipped \<or> to' = StatusCanceled
      else if from' = StatusShipped then to' = StatusDelivered
      else False)"

definition isValidStatus :: "OrderStatus \<Rightarrow> bool" where
  "isValidStatus s =
     (if s = StatusPending \<or> s = StatusConfirmed \<or> s = StatusShipped
         \<or> s = StatusDelivered \<or> s = StatusCanceled
      then True else False)"

section \<open>The store (InMemoryService)\<close>

text \<open>
  The two maps the mutex guards. An operation holds the lock for all of its accesses but
  \<^verbatim>\<open>Create\<close>, which reads under the shared lock first and commits under the exclusive
  lock later; its two critical sections are two functions below.
\<close>

record InMemoryService =
  orders :: "string \<rightharpoonup> Order"
  idempo :: "string \<rightharpoonup> string"

definition NewInMemoryService :: InMemoryService where
  "NewInMemoryService = \<lparr>orders = Map.empty, idempo = Map.empty\<rparr>"

subsection \<open>Create\<close>

text \<open>
  The loop over \<^verbatim>\<open>o.Lines\<close>: \<open>acc\<close> is the prefix of \<^verbatim>\<open>newOrder.Lines\<close> written so far,
  \<open>totalCents\<close> is the running sum. The first invalid line ends the call.
\<close>

fun createLines :: "OrderLine list \<Rightarrow> OrderLine list \<Rightarrow> int64 \<Rightarrow> error + (OrderLine list \<times> int64)" where
  "createLines [] acc totalCents = Inr (acc, totalCents)"
| "createLines (line # rest) acc totalCents =
     (if sint (Quantity line) \<le> 0 \<or> sint (UnitPriceCents line) < 0 then Inl ErrInvalidInput
      else let line' = line\<lparr>LineTotalCents := Quantity line * UnitPriceCents line\<rparr>
           in createLines rest (acc @ [line']) (totalCents + LineTotalCents line'))"

text \<open>
  What \<^verbatim>\<open>Create\<close> does before it takes the exclusive lock: the context check, the
  fast path under the shared lock (on the store \<open>s\<close> as it is then), validation and the
  building of the candidate. \<open>nid\<close> is what \<^verbatim>\<open>newID()\<close> returns and \<open>now\<close> what
  \<^verbatim>\<open>time.Now().UTC()\<close> returns. The outcome is either the call's result
  (\<open>Inl\<close>) or the candidate order (\<open>Inr\<close>).
\<close>

definition Create_prepare ::
  "InMemoryService \<Rightarrow> go_context \<Rightarrow> string \<Rightarrow> time \<Rightarrow> Order \<Rightarrow> string
     \<Rightarrow> (error + Order \<times> bool) + Order" where
  "Create_prepare s ctx nid now o' idempotencyKey =
     (case ctx_Err ctx of
        Some err \<Rightarrow> Inl (Inl err)
      | None \<Rightarrow>
         (case (if idempotencyKey \<noteq> [] then idempo s idempotencyKey else None) of
            Some orderID \<Rightarrow>
              (case orders s orderID of
                 None \<Rightarrow> Inl (Inl ErrIdempotency)
               | Some existing \<Rightarrow> Inl (Inr (cloneOrder existing, True)))
          | None \<Rightarrow>
              if CustomerID o' = [] \<or> Currency o' = [] \<or> length (Lines o') = 0
              then Inl (Inl ErrInvalidInput)
              else
                (case createLines (Lines o') [] 0 of
                   Inl err \<Rightarrow> Inl (Inl err)
                 | Inr (lines, totalCents) \<Rightarrow>
                     Inr \<lparr>ID = nid, CustomerID = CustomerID o', Currency = Currency o',
                          Lines = lines, Attributes = cloneMap (Attributes o'),
                          TotalCents = totalCents, Status = StatusPending, Version = 1,
                          CreatedAt = now, UpdatedAt = now, DeletedAt = None\<rparr>)))"

text \<open>
  The critical section under the exclusive lock, on the store as it is then: the second
  look at the idempotency index, and the two writes.
\<close>

definition Create_commit ::
  "InMemoryService \<Rightarrow> Order \<Rightarrow> string \<Rightarrow> (error + Order \<times> bool) \<times> InMemoryService" where
  "Create_commit s newOrder idempotencyKey =
     (case (if idempotencyKey \<noteq> [] then idempo s idempotencyKey else None) of
        Some orderID \<Rightarrow>
          (case orders s orderID of
             Some existing \<Rightarrow> (Inr (cloneOrder existing, True), s)
           | None \<Rightarrow> (Inl ErrIdempotency, s))
      | None \<Rightarrow>
          (let s1 = s\<lparr>orders := (orders s)(ID newOrder \<mapsto> newOrder)\<rparr>;
               s2 = (if idempotencyKey \<noteq> [] then s1\<lparr>idempo := (idempo s1)(idempotencyKey \<mapsto> ID newOrder)\<rparr>
                     else s1)
           in (Inr (cloneOrder newOrder, False), s2)))"

text \<open>A call of \<^verbatim>\<open>Create\<close> that no other operation interleaves with.\<close>

definition Create ::
  "InMemoryService \<Rightarrow> go_context \<Rightarrow> string \<Rightarrow> time \<Rightarrow> Order \<Rightarrow> string
     \<Rightarrow> (error + Order \<times> bool) \<times> InMemoryService" where
  "Create s ctx nid now o' idempotencyKey =
     (case Create_prepare s ctx nid now o' idempotencyKey of
        Inl result \<Rightarrow> (result, s)
      | Inr newOrder \<Rightarrow> Create_commit s newOrder idempotencyKey)"

subsection \<open>Get\<close>

definition Get ::
  "InMemoryService \<Rightarrow> go_context \<Rightarrow> string \<Rightarrow> bool \<Rightarrow> error + Order" where
  "Get s ctx id' includeDeleted =
     (case ctxErr ctx of
        Some err \<Rightarrow> Inl err
      | None \<Rightarrow>
         (case orders s id' of
            None \<Rightarrow> Inl ErrNotFound
          | Some order \<Rightarrow>
              if DeletedAt order \<noteq> None \<and> \<not> includeDeleted then Inl ErrNotFound
              else Inr (cloneOrder order)))"

subsection \<open>List\<close>

text \<open>
  The body of the filter loop: \<open>False\<close> where the loop says \<^verbatim>\<open>continue\<close>, \<open>True\<close>
  where it appends the order.
\<close>

definition listKeeps :: "ListOptions \<Rightarrow> Order \<Rightarrow> bool" where
  "listKeeps opts order =
     (if DeletedAt order \<noteq> None then False
      else if (case opt_Status opts of None \<Rightarrow> False | Some st \<Rightarrow> Status order \<noteq> st) then False
      else if (case opt_CustomerID opts of None \<Rightarrow> False | Some c \<Rightarrow> CustomerID order \<noteq> c) then False
      else if (case opt_CreateFrom opts of None \<Rightarrow> False | Some t \<Rightarrow> CreatedAt order < t) then False
      else if (case opt_CreateTo opts of None \<Rightarrow> False | Some t \<Rightarrow> CreatedAt order > t) then False
      else True)"

text \<open>The closure given to \<^verbatim>\<open>sort.Slice\<close>, on the elements at the two indices.\<close>

definition createdAfter :: "Order \<Rightarrow> Order \<Rightarrow> bool" where
  "createdAfter a b = (CreatedAt a > CreatedAt b)"

text \<open>
  \<^verbatim>\<open>sort.Slice\<close> is the standard library's: \<^verbatim>\<open>List\<close> takes it as the parameter
  \<open>sortSlice\<close>. What the library promises of it is that the result is a rearrangement of
  the slice in which no later element is less than an earlier one; it does not promise to
  keep the order of elements that compare equal.
\<close>

definition sortSlice_contract ::
  "((Order \<Rightarrow> Order \<Rightarrow> bool) \<Rightarrow> Order list \<Rightarrow> Order list) \<Rightarrow> bool" where
  "sortSlice_contract sortSlice =
     (\<forall>xs. mset (sortSlice createdAfter xs) = mset xs
         \<and> sorted_wrt (\<lambda>a b. \<not> createdAfter b a) (sortSlice createdAfter xs))"

text \<open>
  What \<^verbatim>\<open>sort.Slice\<close> runs on a slice of fewer than 12 elements is the insertion sort
  \<^verbatim>\<open>for i := 1; i < n; i++ { for j := i; j > 0 && less(j, j-1); j-- { swap(j, j-1) } }\<close>.
  \<open>insertLess\<close> is the inner loop, on the sorted prefix read from its right end.
\<close>

fun insertLess :: "('a \<Rightarrow> 'a \<Rightarrow> bool) \<Rightarrow> 'a \<Rightarrow> 'a list \<Rightarrow> 'a list" where
  "insertLess lessFn x [] = [x]"
| "insertLess lessFn x (y # revPrefix) =
     (if lessFn x y then y # insertLess lessFn x revPrefix else x # y # revPrefix)"

definition insertionSort :: "('a \<Rightarrow> 'a \<Rightarrow> bool) \<Rightarrow> 'a list \<Rightarrow> 'a list" where
  "insertionSort lessFn xs = rev (foldl (\<lambda>revPrefix x. insertLess lessFn x revPrefix) [] xs)"

text \<open>Go's \<^verbatim>\<open>/\<close> on \<^verbatim>\<open>int\<close>: the quotient truncated towards zero, wrapped to 64 bits.\<close>

definition go_div :: "go_int \<Rightarrow> go_int \<Rightarrow> go_int" where
  "go_div a b = word_of_int (sint a sdiv sint b)"

text \<open>
  Steps 4 and 5 of \<^verbatim>\<open>List\<close>, on the sorted slice \<open>filtered\<close>: the defaults of the
  page and its size, the window, and the result. The slice expression
  \<^verbatim>\<open>filtered[start:end]\<close> panics unless \<open>0 \<le> start \<le> end \<le> cap\<close>; \<open>end\<close> is at
  most the length here.
\<close>

definition paginate :: "Order list \<Rightarrow> go_int \<Rightarrow> go_int \<Rightarrow> error + ListResult" where
  "paginate filtered optPage optPageSize =
     (let totalItems = (word_of_nat (length filtered) :: go_int);
          page = (if sint optPage \<le> 0 then 1 else optPage);
          pageSize = (if sint optPageSize \<le> 0 then 10 else optPageSize);
          start = (page - 1) * pageSize;
          end0 = start + pageSize
      in if sint start \<ge> sint totalItems
         then Inr \<lparr>Items = [], Page = 0, PageSize = 0, TotalItems = totalItems, TotalPages = 0\<rparr>
         else
           (let end1 = (if sint end0 > sint totalItems then totalItems else end0)
            in if sint start < 0 \<or> sint end1 < sint start then Inl PanicSliceBounds
               else
                 (let pageItems = take (nat (sint end1 - sint start)) (drop (nat (sint start)) filtered)
                  in Inr \<lparr>Items = map cloneOrder pageItems, Page = page, PageSize = pageSize,
                          TotalItems = totalItems,
                          TotalPages = go_div (totalItems + pageSize - 1) pageSize\<rparr>)))"

text \<open>
  \<^verbatim>\<open>List\<close>. The \<^verbatim>\<open>range\<close> over the map \<^verbatim>\<open>s.orders\<close> visits its entries in an order
  the language leaves open: \<open>rangeKeys\<close> is the order of the keys in this call (each key
  of the map once).
\<close>

definition List ::
  "InMemoryService \<Rightarrow> string list \<Rightarrow> ((Order \<Rightarrow> Order \<Rightarrow> bool) \<Rightarrow> Order list \<Rightarrow> Order list)
     \<Rightarrow> go_context \<Rightarrow> ListOptions \<Rightarrow> error + ListResult" where
  "List s rangeKeys sortSlice ctx opts =
     (case ctxErr ctx of
        Some err \<Rightarrow> Inl err
      | None \<Rightarrow>
         (let allOrders = List.map_filter (orders s) rangeKeys;
              filtered = sortSlice createdAfter (filter (listKeeps opts) allOrders)
          in paginate filtered (opt_Page opts) (opt_PageSize opts)))"

subsection \<open>UpdatedStatus\<close>

text \<open>The method returns \<^verbatim>\<open>Order{}, nil\<close> and touches nothing.\<close>

definition UpdatedStatus ::
  "InMemoryService \<Rightarrow> go_context \<Rightarrow> string \<Rightarrow> OrderStatus \<Rightarrow> int64 option
     \<Rightarrow> (error + Order) \<times> InMemoryService" where
  "UpdatedStatus s ctx id' newStatus expectedVersion = (Inr zeroOrder, s)"

section \<open>Example data\<close>

text \<open>
  The order of the specification's example scenario, as it is stored after its creation,
  a second order created at the same instant, a soft-deleted order, and stores built from
  them.
\<close>

definition ex_line :: OrderLine where
  "ex_line = \<lparr>ProductID = ''p1'', Quantity = 2, UnitPriceCents = 500, LineTotalCents = 1000\<rparr>"

definition ex_order_a :: Order where
  "ex_order_a = \<lparr>ID = ''a'', CustomerID = ''c1'', Currency = ''USD'', Lines = [ex_line],
     Attributes = None, TotalCents = 1000, Status = ''PENDING'', Version = 1,
     CreatedAt = 5, UpdatedAt = 5, DeletedAt = None\<rparr>"

definition ex_order_b :: Order where
  "ex_order_b = \<lparr>ID = ''b'', CustomerID = ''c1'', Currency = ''USD'', Lines = [ex_line],
     Attributes = None, TotalCents = 1000, Status = ''PENDING'', Version = 1,
     CreatedAt = 5, UpdatedAt = 5, DeletedAt = None\<rparr>"

definition ex_order_d :: Order where
  "ex_order_d = \<lparr>ID = ''d'', CustomerID = ''c1'', Currency = ''USD'', Lines = [ex_line],
     Attributes = None, TotalCents = 1000, Status = ''PENDING'', Version = 1,
     CreatedAt = 3, UpdatedAt = 9, DeletedAt = Some 9\<rparr>"

text \<open>The skeleton a caller passes: no identifier, a line total that is not the product.\<close>

definition ex_skeleton :: Order where
  "ex_skeleton = \<lparr>ID = [], CustomerID = ''c1'', Currency = ''USD'',
     Lines = [\<lparr>ProductID = ''p1'', Quantity = 2, UnitPriceCents = 500, LineTotalCents = 7\<rparr>],
     Attributes = None, TotalCents = 0, Status = [], Version = 0,
     CreatedAt = 0, UpdatedAt = 0, DeletedAt = None\<rparr>"

definition ex_store :: InMemoryService where
  "ex_store = \<lparr>orders = [''a'' \<mapsto> ex_order_a, ''b'' \<mapsto> ex_order_b, ''d'' \<mapsto> ex_order_d],
     idempo = [''k1'' \<mapsto> ''a'']\<rparr>"

text \<open>A store whose index names an order that the primary table does not hold.\<close>

definition ex_store_dangling :: InMemoryService where
  "ex_store_dangling = \<lparr>orders = Map.empty, idempo = [''k1'' \<mapsto> ''a'']\<rparr>"

definition ex_store_one :: InMemoryService where
  "ex_store_one = \<lparr>orders = [''a'' \<mapsto> ex_order_a], idempo = Map.empty\<rparr>"

definition ex_opts :: ListOptions where
  "ex_opts = \<lparr>opt_Status = None, opt_CustomerID = None, opt_CreateFrom = None,
     opt_CreateTo = None, opt_Page = 1, opt_PageSize = 10\<rparr>"

text \<open>
  A valid skeleton whose single product does not fit into 63 bits, and the order that
  Create builds from it with the identifier \<open>n\<close> at the instant 7.
\<close>

definition ex_overflow_line :: OrderLine where
  "ex_overflow_line = \<lparr>ProductID = ''p1'', Quantity = 3037000500, UnitPriceCents = 3037000500,
     LineTotalCents = 0\<rparr>"

definition ex_overflow_skeleton :: Order where
  "ex_overflow_skeleton = \<lparr>ID = [], CustomerID = ''c1'', Currency = ''USD'',
     Lines = [ex_overflow_line], Attributes = None, TotalCents = 0, Status = [], Version = 0,
     CreatedAt = 0, UpdatedAt = 0, DeletedAt = None\<rparr>"

definition ex_overflow_created :: Order where
  "ex_overflow_created = \<lparr>ID = ''n'', CustomerID = ''c1'', Currency = ''USD'',
     Lines = [ex_overflow_line\<lparr>LineTotalCents := 9223372037000250000\<rparr>], Attributes = None,
     TotalCents = 9223372037000250000, Status = ''PENDING'', Version = 1,
     CreatedAt = 7, UpdatedAt = 7, DeletedAt = None\<rparr>"

text \<open>An order created later than \<open>a\<close>, and a store of the two.\<close>

definition ex_order_c :: Order where
  "ex_order_c = \<lparr>ID = ''c'', CustomerID = ''c1'', Currency = ''USD'', Lines = [ex_line],
     Attributes = None, TotalCents = 1000, Status = ''PENDING'', Version = 1,
     CreatedAt = 8, UpdatedAt = 8, DeletedAt = None\<rparr>"

definition ex_store_two :: InMemoryService where
  "ex_store_two = \<lparr>orders = [''a'' \<mapsto> ex_order_a, ''c'' \<mapsto> ex_order_c], idempo = Map.empty\<rparr>"

section \<open>Basic facts\<close>

lemma cloneMap_same: "cloneMap m = m"
  by (simp add: cloneMap_def split: option.split)

lemma cloneOrder_same: "cloneOrder x = x"
  by (cases x) (simp add: cloneOrder_def cloneMap_same split: option.split)

lemma map_cloneOrder: "map cloneOrder xs = xs"
  by (induction xs) (simp_all add: cloneOrder_same)

lemma ctxErr_live: "ctx_Err ctx = None \<Longrightarrow> ctxErr ctx = None"
  by (simp add: ctxErr_def)

lemma createLines_valid:
  "\<forall>l\<in>set ls. 0 < sint (Quantity l) \<and> 0 \<le> sint (UnitPriceCents l) \<Longrightarrow>
   createLines ls acc t =
     Inr (acc @ map (\<lambda>l. l\<lparr>LineTotalCents := Quantity l * UnitPriceCents l\<rparr>) ls,
          t + sum_list (map (\<lambda>l. Quantity l * UnitPriceCents l) ls))"
proof (induction ls arbitrary: acc t)
  case Nil
  then show ?case by simp
next
  case (Cons l ls)
  then have ok: "\<not> (sint (Quantity l) \<le> 0 \<or> sint (UnitPriceCents l) < 0)" by auto
  from Cons show ?case
    using ok by (simp add: Let_def add.assoc)
qed

lemma createLines_invalid:
  "\<exists>l\<in>set ls. sint (Quantity l) \<le> 0 \<or> sint (UnitPriceCents l) < 0 \<Longrightarrow>
   createLines ls acc t = Inl ErrInvalidInput"
proof (induction ls arbitrary: acc t)
  case Nil
  then show ?case by simp
next
  case (Cons l ls)
  show ?case
  proof (cases "sint (Quantity l) \<le> 0 \<or> sint (UnitPriceCents l) < 0")
    case True
    then show ?thesis by simp
  next
    case False
    with Cons.prems have "\<exists>l\<in>set ls. sint (Quantity l) \<le> 0 \<or> sint (UnitPriceCents l) < 0"
      by auto
    from Cons.IH [OF this] False show ?thesis by (simp add: Let_def)
  qed
qed

text \<open>
  The int64 product and sum are the product and the sum of the integers as long as these
  stay below \<open>2 ^ 63\<close>.
\<close>

lemma sint_mult_exact:
  fixes q p :: int64
  assumes "0 \<le> sint q" and "0 \<le> sint p" and "sint q * sint p < 2 ^ 63"
  shows "sint (q * p) = sint q * sint p"
proof -
  have "0 \<le> sint q * sint p" using assms(1,2) by simp
  then have "signed_take_bit 63 (sint q * sint p) = sint q * sint p"
    using assms(3) by (intro signed_take_bit_int_eq_self) simp_all
  then show ?thesis by (simp add: sint_word_ariths)
qed

lemma sint_sum_list_exact:
  fixes xs :: "int64 list"
  assumes "\<forall>x\<in>set xs. 0 \<le> sint x" and "sum_list (map sint xs) < 2 ^ 63"
  shows "sint (sum_list xs) = sum_list (map sint xs)"
  using assms
proof (induction xs)
  case Nil
  then show ?case by simp
next
  case (Cons x xs)
  have nonneg: "0 \<le> sum_list (map sint xs)"
    using Cons.prems(1) by (intro sum_list_nonneg) auto
  have x0: "0 \<le> sint x" using Cons.prems(1) by simp
  have "sum_list (map sint xs) < 2 ^ 63" using Cons.prems(2) x0 by simp
  with Cons have ih: "sint (sum_list xs) = sum_list (map sint xs)" by simp
  have "signed_take_bit 63 (sint x + sum_list (map sint xs)) = sint x + sum_list (map sint xs)"
    using Cons.prems(2) x0 nonneg by (intro signed_take_bit_int_eq_self) simp_all
  then show ?case by (simp add: sint_word_ariths ih)
qed

text \<open>
  Where the sum of the products fits into 63 bits, the line totals and the total that the
  loop computes are the products and the sum of the integers.
\<close>

lemma createLines_exact:
  assumes valid: "\<forall>l\<in>set ls. 0 < sint (Quantity l) \<and> 0 \<le> sint (UnitPriceCents l)"
    and fits: "(\<Sum>l\<leftarrow>ls. sint (Quantity l) * sint (UnitPriceCents l)) < 2 ^ 63"
  shows "\<exists>lines totalCents. createLines ls [] 0 = Inr (lines, totalCents)
      \<and> map (\<lambda>l. sint (LineTotalCents l)) lines = map (\<lambda>l. sint (Quantity l) * sint (UnitPriceCents l)) ls
      \<and> sint totalCents = (\<Sum>l\<leftarrow>ls. sint (Quantity l) * sint (UnitPriceCents l))"
proof -
  have each: "sint (Quantity l * UnitPriceCents l) = sint (Quantity l) * sint (UnitPriceCents l)"
    if l: "l \<in> set ls" for l
  proof -
    have q: "0 \<le> sint (Quantity l)" and p: "0 \<le> sint (UnitPriceCents l)"
      using valid l by auto
    have "\<forall>x\<in>set ls. 0 \<le> sint (Quantity x) * sint (UnitPriceCents x)"
      using valid by auto
    then have "sint (Quantity l) * sint (UnitPriceCents l)
        \<le> (\<Sum>l\<leftarrow>ls. sint (Quantity l) * sint (UnitPriceCents l))"
      using l by (intro member_le_sum_list) auto
    with fits have "sint (Quantity l) * sint (UnitPriceCents l) < 2 ^ 63" by simp
    with q p show ?thesis by (rule sint_mult_exact)
  qed
  have maps: "map (\<lambda>l. sint (Quantity l * UnitPriceCents l)) ls
      = map (\<lambda>l. sint (Quantity l) * sint (UnitPriceCents l)) ls"
    using each by simp
  have sums: "(\<Sum>l\<leftarrow>ls. sint (Quantity l * UnitPriceCents l))
      = (\<Sum>l\<leftarrow>ls. sint (Quantity l) * sint (UnitPriceCents l))"
    by (rule arg_cong [OF maps])
  have "sint (sum_list (map (\<lambda>l. Quantity l * UnitPriceCents l) ls))
      = sum_list (map sint (map (\<lambda>l. Quantity l * UnitPriceCents l) ls))"
  proof (rule sint_sum_list_exact)
    show "\<forall>x\<in>set (map (\<lambda>l. Quantity l * UnitPriceCents l) ls). 0 \<le> sint x"
      using each valid by auto
    show "sum_list (map sint (map (\<lambda>l. Quantity l * UnitPriceCents l) ls)) < 2 ^ 63"
      using fits by (simp add: comp_def sums)
  qed
  then have total: "sint (sum_list (map (\<lambda>l. Quantity l * UnitPriceCents l) ls))
      = (\<Sum>l\<leftarrow>ls. sint (Quantity l) * sint (UnitPriceCents l))"
    by (simp add: comp_def sums)
  have lines: "map (\<lambda>l. sint (LineTotalCents l))
        (map (\<lambda>l. l\<lparr>LineTotalCents := Quantity l * UnitPriceCents l\<rparr>) ls)
      = map (\<lambda>l. sint (Quantity l) * sint (UnitPriceCents l)) ls"
    using each by simp
  show ?thesis
    using createLines_valid [OF valid, of "[]" 0] lines total by simp
qed

section \<open>Create\<close>

text \<open>
  C1. A call of Create whose context is live and whose non-empty idempotency key is in
  the index: when the indexed identifier is in the primary table, the call returns a copy
  of that order (equal to it) with reused = true and the store as it was; when it is not,
  the call fails with ErrIdempotency, which is not ErrNotFound, and the store is as it was.
\<close>

theorem Create_idempotent_hit:
  assumes "ctx_Err ctx = None" and "key \<noteq> []" and "idempo s key = Some oid"
  shows "(orders s oid = Some existing \<longrightarrow>
            Create s ctx nid now o' key = (Inr (cloneOrder existing, True), s)
            \<and> cloneOrder existing = existing)
       \<and> (orders s oid = None \<longrightarrow>
            Create s ctx nid now o' key = (Inl ErrIdempotency, s))
       \<and> ErrIdempotency \<noteq> ErrNotFound"
  using assms by (simp add: Create_def Create_prepare_def cloneOrder_same)

theorem Create_idempotent_hit_witness:
  "Create ex_store Background ''n'' 7 ex_skeleton ''k1'' = (Inr (cloneOrder ex_order_a, True), ex_store)
   \<and> Create ex_store_dangling Background ''n'' 7 ex_skeleton ''k1''
       = (Inl ErrIdempotency, ex_store_dangling)"
  using Create_idempotent_hit [where s = ex_store and ctx = Background and key = "''k1''"
      and oid = "''a''" and existing = ex_order_a and nid = "''n''" and now = 7
      and o' = ex_skeleton]
    Create_idempotent_hit [where s = ex_store_dangling and ctx = Background and key = "''k1''"
      and oid = "''a''" and existing = ex_order_a and nid = "''n''" and now = 7
      and o' = ex_skeleton]
  by (simp add: ex_store_def ex_store_dangling_def)

text \<open>
  C2, as the code has it. A call of Create whose context is live, whose key is empty or
  not in the index and whose skeleton is valid succeeds with reused = false. The order
  returned has the fresh identifier, status PENDING and version 1, and its lines are the
  skeleton's in product, quantity and unit price; it is stored in the primary table under
  its identifier and a non-empty key is registered in the index. Where the sum over the
  lines of quantity times unit price is below \<open>2 ^ 63\<close>, every line total is quantity
  times unit price, whatever the caller supplied, and the total is the sum of the line
  totals.
\<close>

theorem Create_valid:
  assumes "ctx_Err ctx = None" and "key \<noteq> [] \<longrightarrow> idempo s key = None"
    and "CustomerID o' \<noteq> []" and "Currency o' \<noteq> []" and "Lines o' \<noteq> []"
    and "\<forall>l\<in>set (Lines o'). 0 < sint (Quantity l) \<and> 0 \<le> sint (UnitPriceCents l)"
  shows "\<exists>created s'.
           Create s ctx nid now o' key = (Inr (created, False), s')
         \<and> ID created = nid \<and> CustomerID created = CustomerID o' \<and> Currency created = Currency o'
         \<and> Status created = StatusPending \<and> Version created = 1
         \<and> CreatedAt created = now \<and> UpdatedAt created = now \<and> DeletedAt created = None
         \<and> map ProductID (Lines created) = map ProductID (Lines o')
         \<and> map Quantity (Lines created) = map Quantity (Lines o')
         \<and> map UnitPriceCents (Lines created) = map UnitPriceCents (Lines o')
         \<and> orders s' = (orders s)(nid \<mapsto> created)
         \<and> idempo s' = (if key = [] then idempo s else (idempo s)(key \<mapsto> nid))
         \<and> ((\<Sum>l\<leftarrow>Lines o'. sint (Quantity l) * sint (UnitPriceCents l)) < 2 ^ 63 \<longrightarrow>
               map (\<lambda>l. sint (LineTotalCents l)) (Lines created)
                 = map (\<lambda>l. sint (Quantity l) * sint (UnitPriceCents l)) (Lines o')
             \<and> sint (TotalCents created)
                 = (\<Sum>l\<leftarrow>Lines created. sint (LineTotalCents l))
             \<and> sint (TotalCents created)
                 = (\<Sum>l\<leftarrow>Lines o'. sint (Quantity l) * sint (UnitPriceCents l)))"
proof -
  define recomputed where
    "recomputed = map (\<lambda>l. l\<lparr>LineTotalCents := Quantity l * UnitPriceCents l\<rparr>) (Lines o')"
  define totalCents where
    "totalCents = sum_list (map (\<lambda>l. Quantity l * UnitPriceCents l) (Lines o'))"
  define created where
    "created = \<lparr>ID = nid, CustomerID = CustomerID o', Currency = Currency o',
       Lines = recomputed, Attributes = cloneMap (Attributes o'),
       TotalCents = totalCents, Status = StatusPending, Version = 1,
       CreatedAt = now, UpdatedAt = now, DeletedAt = None\<rparr>"
  define s' where
    "s' = (if key \<noteq> [] then s\<lparr>orders := (orders s)(nid \<mapsto> created),
                                   idempo := (idempo s)(key \<mapsto> nid)\<rparr>
           else s\<lparr>orders := (orders s)(nid \<mapsto> created)\<rparr>)"
  have idx: "(if key \<noteq> [] then idempo s key else None) = None"
    using assms(2) by simp
  have lines: "createLines (Lines o') [] 0 = Inr (recomputed, totalCents)"
    using createLines_valid [OF assms(6), of "[]" 0] by (simp add: recomputed_def totalCents_def)
  have prepared: "Create_prepare s ctx nid now o' key = Inr created"
    using assms(1,3,4,5) idx lines by (simp add: Create_prepare_def created_def)
  have committed: "Create_commit s created key = (Inr (created, False), s')"
    using idx by (simp add: Create_commit_def Let_def cloneOrder_same s'_def created_def)
  have run: "Create s ctx nid now o' key = (Inr (created, False), s')"
    using prepared committed by (simp add: Create_def)
  have fields: "ID created = nid" "CustomerID created = CustomerID o'"
    "Currency created = Currency o'" "Status created = StatusPending" "Version created = 1"
    "CreatedAt created = now" "UpdatedAt created = now" "DeletedAt created = None"
    by (simp_all add: created_def)
  have kept: "map ProductID (Lines created) = map ProductID (Lines o')"
    "map Quantity (Lines created) = map Quantity (Lines o')"
    "map UnitPriceCents (Lines created) = map UnitPriceCents (Lines o')"
    by (simp_all add: created_def recomputed_def comp_def)
  have stored: "orders s' = (orders s)(nid \<mapsto> created)"
    "idempo s' = (if key = [] then idempo s else (idempo s)(key \<mapsto> nid))"
    by (simp_all add: s'_def)
  have exact: "map (\<lambda>l. sint (LineTotalCents l)) (Lines created)
                 = map (\<lambda>l. sint (Quantity l) * sint (UnitPriceCents l)) (Lines o')
             \<and> sint (TotalCents created) = (\<Sum>l\<leftarrow>Lines created. sint (LineTotalCents l))
             \<and> sint (TotalCents created)
                 = (\<Sum>l\<leftarrow>Lines o'. sint (Quantity l) * sint (UnitPriceCents l))"
    if fits: "(\<Sum>l\<leftarrow>Lines o'. sint (Quantity l) * sint (UnitPriceCents l)) < 2 ^ 63"
  proof -
    from createLines_exact [OF assms(6) fits] lines
    have each: "map (\<lambda>l. sint (LineTotalCents l)) recomputed
          = map (\<lambda>l. sint (Quantity l) * sint (UnitPriceCents l)) (Lines o')"
      and total: "sint totalCents = (\<Sum>l\<leftarrow>Lines o'. sint (Quantity l) * sint (UnitPriceCents l))"
      by simp_all
    have "(\<Sum>l\<leftarrow>recomputed. sint (LineTotalCents l))
        = (\<Sum>l\<leftarrow>Lines o'. sint (Quantity l) * sint (UnitPriceCents l))"
      by (rule arg_cong [OF each])
    with each total show ?thesis by (simp add: created_def)
  qed
  from run fields kept stored exact show ?thesis by blast
qed

theorem Create_valid_witness:
  "\<exists>created s'.
     Create NewInMemoryService Background ''n'' 7 ex_skeleton ''k2'' = (Inr (created, False), s')
     \<and> Status created = StatusPending \<and> Version created = 1
     \<and> map (\<lambda>l. sint (LineTotalCents l)) (Lines created) = [1000]
     \<and> sint (TotalCents created) = 1000
     \<and> orders s' ''n'' = Some created \<and> idempo s' ''k2'' = Some ''n''"
  using Create_valid [where s = NewInMemoryService and ctx = Background and key = "''k2''"
      and nid = "''n''" and now = 7 and o' = ex_skeleton]
  by (auto simp add: NewInMemoryService_def ex_skeleton_def)

text \<open>
  C2 as it is stated fails. The skeleton is valid (quantity and unit price are both
  3037000500), but the product 9223372037000250000 does not fit into an int64: the line
  total and the total of the order that Create returns and stores are negative.
\<close>

theorem Create_total_overflow_counterexample:
  "CustomerID ex_overflow_skeleton = ''c1'' \<and> Currency ex_overflow_skeleton = ''USD''
   \<and> Lines ex_overflow_skeleton = [ex_overflow_line]
   \<and> sint (Quantity ex_overflow_line) = 3037000500
   \<and> sint (UnitPriceCents ex_overflow_line) = 3037000500
   \<and> fst (Create NewInMemoryService Background ''n'' 7 ex_overflow_skeleton [])
       = Inr (ex_overflow_created, False)
   \<and> map (\<lambda>l. sint (LineTotalCents l)) (Lines ex_overflow_created) = [- 9223372036709301616]
   \<and> sint (TotalCents ex_overflow_created) = - 9223372036709301616
   \<and> sint (Quantity ex_overflow_line) * sint (UnitPriceCents ex_overflow_line)
       = 9223372037000250000"
  by (simp add: Create_def Create_prepare_def Create_commit_def Let_def cloneOrder_def
      cloneMap_def NewInMemoryService_def ex_overflow_skeleton_def ex_overflow_line_def
      ex_overflow_created_def StatusPending_def)

text \<open>
  C3. A call of Create whose context is live, whose key is empty or not in the index and
  whose skeleton breaks a validation rule fails with ErrInvalidInput and leaves the store
  as it was.
\<close>

theorem Create_invalid_input:
  assumes "ctx_Err ctx = None" and "key \<noteq> [] \<longrightarrow> idempo s key = None"
    and "CustomerID o' = [] \<or> Currency o' = [] \<or> Lines o' = []
         \<or> (\<exists>l\<in>set (Lines o'). sint (Quantity l) \<le> 0 \<or> sint (UnitPriceCents l) < 0)"
  shows "Create s ctx nid now o' key = (Inl ErrInvalidInput, s)"
proof -
  have idx: "(if key \<noteq> [] then idempo s key else None) = None"
    using assms(2) by simp
  show ?thesis
  proof (cases "CustomerID o' = [] \<or> Currency o' = [] \<or> Lines o' = []")
    case True
    then show ?thesis
      using assms(1) idx by (auto simp add: Create_def Create_prepare_def)
  next
    case False
    with assms(3) have "createLines (Lines o') [] 0 = Inl ErrInvalidInput"
      by (simp add: createLines_invalid)
    with False show ?thesis
      using assms(1) idx by (simp add: Create_def Create_prepare_def)
  qed
qed

theorem Create_invalid_input_witness:
  "Create ex_store Background ''n'' 7 (ex_skeleton\<lparr>CustomerID := []\<rparr>) ''k2'' = (Inl ErrInvalidInput, ex_store)
 \<and> Create ex_store Background ''n'' 7 (ex_skeleton\<lparr>Lines := [ex_line\<lparr>Quantity := 0\<rparr>]\<rparr>) []
      = (Inl ErrInvalidInput, ex_store)"
  using Create_invalid_input [where s = ex_store and ctx = Background and key = "''k2''"
      and nid = "''n''" and now = 7 and o' = "ex_skeleton\<lparr>CustomerID := []\<rparr>"]
    Create_invalid_input [where s = ex_store and ctx = Background and key = "[]"
      and nid = "''n''" and now = 7 and o' = "ex_skeleton\<lparr>Lines := [ex_line\<lparr>Quantity := 0\<rparr>]\<rparr>"]
  by (simp add: ex_store_def ex_skeleton_def ex_line_def)

text \<open>
  C10. The look at the idempotency index comes before validation: a call of Create whose
  context is live, whose non-empty key is registered to an order of the primary table and
  whose skeleton is invalid returns that order with reused = true, not ErrInvalidInput.
\<close>

theorem Create_reuse_skips_validation:
  assumes "ctx_Err ctx = None" and "key \<noteq> []" and "idempo s key = Some oid"
    and "orders s oid = Some existing"
    and "CustomerID o' = [] \<or> Currency o' = [] \<or> Lines o' = []
         \<or> (\<exists>l\<in>set (Lines o'). sint (Quantity l) \<le> 0 \<or> sint (UnitPriceCents l) < 0)"
  shows "Create s ctx nid now o' key = (Inr (existing, True), s)
       \<and> fst (Create s ctx nid now o' key) \<noteq> Inl ErrInvalidInput"
  using assms(1-4) by (simp add: Create_def Create_prepare_def cloneOrder_same)

theorem Create_reuse_skips_validation_witness:
  "Create ex_store Background ''n'' 7 (ex_skeleton\<lparr>CustomerID := []\<rparr>) ''k1'' = (Inr (ex_order_a, True), ex_store)
 \<and> fst (Create ex_store Background ''n'' 7 (ex_skeleton\<lparr>CustomerID := []\<rparr>) ''k1'') \<noteq> Inl ErrInvalidInput"
  using Create_reuse_skips_validation [where s = ex_store and ctx = Background and key = "''k1''"
      and oid = "''a''" and existing = ex_order_a
      and nid = "''n''" and now = 7 and o' = "ex_skeleton\<lparr>CustomerID := []\<rparr>"]
  by (simp add: ex_store_def ex_skeleton_def)

section \<open>List\<close>

lemma mset_insertLess: "mset (insertLess f x rp) = add_mset x (mset rp)"
  by (induction rp) simp_all

lemma set_insertLess: "set (insertLess f x rp) = insert x (set rp)"
  by (induction rp) auto

lemma sorted_insertLess:
  "sorted_wrt (\<lambda>a b. CreatedAt a \<le> CreatedAt b) rp \<Longrightarrow>
   sorted_wrt (\<lambda>a b. CreatedAt a \<le> CreatedAt b) (insertLess createdAfter x rp)"
  by (induction rp) (auto simp add: set_insertLess createdAfter_def)

lemma mset_foldl_insertLess:
  "mset (foldl (\<lambda>rp x. insertLess f x rp) acc xs) = mset acc + mset xs"
  by (induction xs arbitrary: acc) (simp_all add: mset_insertLess)

lemma sorted_foldl_insertLess:
  "sorted_wrt (\<lambda>a b. CreatedAt a \<le> CreatedAt b) acc \<Longrightarrow>
   sorted_wrt (\<lambda>a b. CreatedAt a \<le> CreatedAt b) (foldl (\<lambda>rp x. insertLess createdAfter x rp) acc xs)"
  by (induction xs arbitrary: acc) (simp_all add: sorted_insertLess)

lemma insertionSort_contract: "sortSlice_contract insertionSort"
proof -
  have "mset (insertionSort createdAfter xs) = mset xs" for xs :: "Order list"
    by (simp add: insertionSort_def mset_foldl_insertLess)
  moreover have "sorted_wrt (\<lambda>a b. \<not> createdAfter b a) (insertionSort createdAfter xs)" for xs
    using sorted_foldl_insertLess [of "[]" xs]
    by (simp add: insertionSort_def sorted_wrt_rev createdAfter_def not_less)
  ultimately show ?thesis by (simp add: sortSlice_contract_def)
qed

lemma paginate_items:
  assumes "paginate xs p ps = Inr r"
  shows "\<exists>m n. Items r = take n (drop m xs)"
proof -
  define totalItems where "totalItems = (word_of_nat (length xs) :: go_int)"
  define page where "page = (if sint p \<le> 0 then 1 else p)"
  define pageSize where "pageSize = (if sint ps \<le> 0 then 10 else ps)"
  define start where "start = (page - 1) * pageSize"
  define end1 where
    "end1 = (if sint (start + pageSize) > sint totalItems then totalItems else start + pageSize)"
  define early where "early = (sint start \<ge> sint totalItems)"
  define panic where "panic = (sint start < 0 \<or> sint end1 < sint start)"
  have unfolded: "paginate xs p ps =
     (if early
      then Inr \<lparr>Items = [], Page = 0, PageSize = 0, TotalItems = totalItems, TotalPages = 0\<rparr>
      else if panic then Inl PanicSliceBounds
      else Inr \<lparr>Items = map cloneOrder (take (nat (sint end1 - sint start)) (drop (nat (sint start)) xs)),
                Page = page, PageSize = pageSize, TotalItems = totalItems,
                TotalPages = go_div (totalItems + pageSize - 1) pageSize\<rparr>)"
    unfolding paginate_def Let_def totalItems_def page_def pageSize_def start_def end1_def
      early_def panic_def
    by (rule refl)
  show ?thesis
  proof (cases early)
    case True
    with assms have "r = \<lparr>Items = [], Page = 0, PageSize = 0, TotalItems = totalItems, TotalPages = 0\<rparr>"
      by (simp only: unfolded if_True sum.inject)
    then have "Items r = take 0 (drop 0 xs)" by simp
    then show ?thesis by blast
  next
    case False
    show ?thesis
    proof (cases panic)
      case True
      with \<open>\<not> early\<close> assms have "Inl PanicSliceBounds = Inr r"
        by (simp only: unfolded if_True if_False)
      then show ?thesis by simp
    next
      case False
      with \<open>\<not> early\<close> assms
      have "r = \<lparr>Items = map cloneOrder (take (nat (sint end1 - sint start)) (drop (nat (sint start)) xs)),
                Page = page, PageSize = pageSize, TotalItems = totalItems,
                TotalPages = go_div (totalItems + pageSize - 1) pageSize\<rparr>"
        by (simp only: unfolded if_False sum.inject)
      then have "Items r = take (nat (sint end1 - sint start)) (drop (nat (sint start)) xs)"
        by (simp add: map_cloneOrder)
      then show ?thesis by blast
    qed
  qed
qed

lemma List_items:
  assumes "List s rangeKeys sortSlice ctx opts = Inr r"
  shows "\<exists>m n. Items r = take n (drop m
           (sortSlice createdAfter (filter (listKeeps opts) (List.map_filter (orders s) rangeKeys))))"
proof (cases "ctxErr ctx")
  case None
  with assms have "paginate
      (sortSlice createdAfter (filter (listKeeps opts) (List.map_filter (orders s) rangeKeys)))
      (opt_Page opts) (opt_PageSize opts) = Inr r"
    by (simp add: List_def Let_def)
  then show ?thesis by (rule paginate_items)
next
  case (Some err)
  with assms show ?thesis by (simp add: List_def)
qed

text \<open>
  When List returns a result, its items are in the order of createdAt, newest first: no
  item is older than one that follows it.
\<close>

theorem List_sorted_by_createdAt:
  assumes "sortSlice_contract sortSlice" and "List s rangeKeys sortSlice ctx opts = Inr r"
  shows "sorted_wrt (\<lambda>a b. CreatedAt a \<ge> CreatedAt b) (Items r)"
proof -
  define xs where
    "xs = sortSlice createdAfter (filter (listKeeps opts) (List.map_filter (orders s) rangeKeys))"
  from List_items [OF assms(2)] obtain m n where items: "Items r = take n (drop m xs)"
    unfolding xs_def by blast
  have "sorted_wrt (\<lambda>a b. \<not> createdAfter b a) xs"
    using assms(1) unfolding xs_def sortSlice_contract_def by blast
  then have "sorted_wrt (\<lambda>a b. CreatedAt a \<ge> CreatedAt b) xs"
    by (simp add: createdAfter_def not_less)
  then have "sorted_wrt (\<lambda>a b. CreatedAt a \<ge> CreatedAt b) (take n (drop m xs))"
    by (intro sorted_wrt_take sorted_wrt_drop)
  then show ?thesis by (simp only: items)
qed

theorem List_sorted_by_createdAt_witness:
  "List ex_store_two [''a'', ''c''] insertionSort Background ex_opts =
      Inr \<lparr>Items = [ex_order_c, ex_order_a], Page = 1, PageSize = 10, TotalItems = 2, TotalPages = 1\<rparr>
   \<and> sorted_wrt (\<lambda>a b. CreatedAt a \<ge> CreatedAt b)
     (Items \<lparr>Items = [ex_order_c, ex_order_a], Page = 1, PageSize = 10, TotalItems = 2, TotalPages = 1\<rparr>)
   \<and> CreatedAt ex_order_a < CreatedAt ex_order_c"
proof -
  have run: "List ex_store_two [''a'', ''c''] insertionSort Background ex_opts =
      Inr \<lparr>Items = [ex_order_c, ex_order_a], Page = 1, PageSize = 10, TotalItems = 2, TotalPages = 1\<rparr>"
    by (simp add: List_def paginate_def ex_store_two_def ex_opts_def ex_order_a_def ex_order_c_def
        ex_line_def ctxErr_def List.map_filter_def listKeeps_def insertionSort_def
        createdAfter_def Let_def go_div_def cloneOrder_def cloneMap_def signed_divide_int_def)
  have "CreatedAt ex_order_a < CreatedAt ex_order_c"
    by (simp add: ex_order_a_def ex_order_c_def)
  with run List_sorted_by_createdAt [OF insertionSort_contract run] show ?thesis
    by (simp only: simp_thms)
qed

text \<open>
  C6 at an input where the code departs from it. The orders \<open>a\<close> and \<open>b\<close> were created
  at the same instant and \<open>a\<close> has the smaller identifier. The comparison given to the
  sort looks at createdAt alone, so the order of the two follows the range over the map:
  when the range yields \<open>b\<close> first, List returns \<open>b\<close> before \<open>a\<close>; when it yields \<open>a\<close>
  first, \<open>a\<close> before \<open>b\<close>. With pages of one item, page 1 of one call and page 2 of
  another both hold \<open>b\<close>, though the sort is there for consistent pagination.
\<close>

theorem List_equal_createdAt_order:
  "CreatedAt ex_order_a = CreatedAt ex_order_b \<and> ID ex_order_a < ID ex_order_b
   \<and> List ex_store [''d'', ''b'', ''a''] insertionSort Background ex_opts =
      Inr \<lparr>Items = [ex_order_b, ex_order_a], Page = 1, PageSize = 10, TotalItems = 2, TotalPages = 1\<rparr>
   \<and> List ex_store [''a'', ''b'', ''d''] insertionSort Background ex_opts =
      Inr \<lparr>Items = [ex_order_a, ex_order_b], Page = 1, PageSize = 10, TotalItems = 2, TotalPages = 1\<rparr>
   \<and> List ex_store [''d'', ''b'', ''a''] insertionSort Background (ex_opts\<lparr>opt_PageSize := 1\<rparr>) =
      Inr \<lparr>Items = [ex_order_b], Page = 1, PageSize = 1, TotalItems = 2, TotalPages = 2\<rparr>
   \<and> List ex_store [''a'', ''b'', ''d''] insertionSort Background
        (ex_opts\<lparr>opt_Page := 2, opt_PageSize := 1\<rparr>) =
      Inr \<lparr>Items = [ex_order_b], Page = 2, PageSize = 1, TotalItems = 2, TotalPages = 2\<rparr>"
  by (simp add: List_def paginate_def ex_store_def ex_opts_def ex_order_a_def ex_order_b_def
        ex_order_d_def ex_line_def ctxErr_def List.map_filter_def listKeeps_def insertionSort_def
        createdAfter_def Let_def go_div_def cloneOrder_def cloneMap_def signed_divide_int_def
        less_char_def)

lemma listKeeps_not_deleted: "listKeeps opts x \<Longrightarrow> DeletedAt x = None"
  unfolding listKeeps_def by (cases "DeletedAt x") simp_all

lemma List_items_kept:
  assumes "sortSlice_contract sortSlice" and "List s rangeKeys sortSlice ctx opts = Inr r"
    and "x \<in> set (Items r)"
  shows "listKeeps opts x"
proof -
  define ys where "ys = filter (listKeeps opts) (List.map_filter (orders s) rangeKeys)"
  from List_items [OF assms(2)] obtain m n
    where items: "Items r = take n (drop m (sortSlice createdAfter ys))"
    unfolding ys_def by blast
  have "mset (sortSlice createdAfter ys) = mset ys"
    using assms(1) unfolding sortSlice_contract_def by blast
  then have same: "set (sortSlice createdAfter ys) = set ys"
    by (rule mset_eq_setD)
  have "x \<in> set (take n (drop m (sortSlice createdAfter ys)))"
    using assms(3) by (simp only: items)
  then have "x \<in> set (drop m (sortSlice createdAfter ys))"
    by (rule in_set_takeD)
  then have "x \<in> set (sortSlice createdAfter ys)"
    by (rule in_set_dropD)
  then have "x \<in> set ys" by (simp only: same)
  then show ?thesis unfolding ys_def by simp
qed


text \<open>
  C8. In a store that holds an order whose deletedAt is set, under a live context: Get on
  its identifier fails with ErrNotFound when includeDeleted is false and returns a copy of
  the order (equal to it) when includeDeleted is true; no result of List, whatever the
  options, the order of the range and the context, has the order among its items, and
  every item of List has no deletedAt; Get on an identifier that the primary table does
  not hold fails with ErrNotFound.
\<close>

theorem soft_deleted_visibility:
  assumes "ctx_Err ctx = None" and "orders s oid = Some order" and "DeletedAt order \<noteq> None"
    and "sortSlice_contract sortSlice"
  shows "Get s ctx oid False = Inl ErrNotFound
       \<and> Get s ctx oid True = Inr (cloneOrder order) \<and> cloneOrder order = order
       \<and> (\<forall>rangeKeys ctx' opts r. List s rangeKeys sortSlice ctx' opts = Inr r \<longrightarrow>
            order \<notin> set (Items r) \<and> (\<forall>x\<in>set (Items r). DeletedAt x = None))
       \<and> (\<forall>absent includeDeleted. orders s absent = None \<longrightarrow>
            Get s ctx absent includeDeleted = Inl ErrNotFound)"
proof -
  have live: "ctxErr ctx = None" using assms(1) by (rule ctxErr_live)
  have get1: "Get s ctx oid False = Inl ErrNotFound"
    using assms(2,3) live by (simp add: Get_def)
  have get2: "Get s ctx oid True = Inr (cloneOrder order)"
    using assms(2) live by (simp add: Get_def)
  have absent: "Get s ctx absent includeDeleted = Inl ErrNotFound"
    if "orders s absent = None" for absent includeDeleted
    using that live by (simp add: Get_def)
  have list: "order \<notin> set (Items r) \<and> (\<forall>x\<in>set (Items r). DeletedAt x = None)"
    if run: "List s rangeKeys sortSlice ctx' opts = Inr r" for rangeKeys ctx' opts r
  proof -
    have kept: "DeletedAt x = None" if "x \<in> set (Items r)" for x
      using List_items_kept [OF assms(4) run that] by (rule listKeeps_not_deleted)
    have "order \<notin> set (Items r)"
    proof
      assume "order \<in> set (Items r)"
      then have "DeletedAt order = None" by (rule kept)
      with assms(3) show False by simp
    qed
    with kept show ?thesis by simp
  qed
  show ?thesis
    using get1 get2 absent list cloneOrder_same by blast
qed

theorem soft_deleted_visibility_witness:
  "Get ex_store Background ''d'' False = Inl ErrNotFound
   \<and> Get ex_store Background ''d'' True = Inr (cloneOrder ex_order_d)
   \<and> ex_order_d \<notin> set (Items \<lparr>Items = [ex_order_b, ex_order_a], Page = 1, PageSize = 10,
                                  TotalItems = 2, TotalPages = 1\<rparr>)
   \<and> Get ex_store Background ''zz'' True = Inl ErrNotFound"
proof -
  have run: "List ex_store [''d'', ''b'', ''a''] insertionSort Background ex_opts =
      Inr \<lparr>Items = [ex_order_b, ex_order_a], Page = 1, PageSize = 10, TotalItems = 2, TotalPages = 1\<rparr>"
    by (simp add: List_def paginate_def ex_store_def ex_opts_def ex_order_a_def ex_order_b_def
        ex_order_d_def ex_line_def ctxErr_def List.map_filter_def listKeeps_def insertionSort_def
        createdAfter_def Let_def go_div_def cloneOrder_def cloneMap_def signed_divide_int_def)
  have deleted: "orders ex_store ''d'' = Some ex_order_d" "DeletedAt ex_order_d \<noteq> None"
    by (simp_all add: ex_store_def ex_order_d_def)
  have absent: "orders ex_store ''zz'' = None"
    by (simp add: ex_store_def)
  have live: "ctx_Err Background = None" by simp
  from soft_deleted_visibility [OF live deleted insertionSort_contract] run absent
  show ?thesis by blast
qed

text \<open>
  C7 at an input where the code departs from it. The store holds one order, the page
  asked for is 2 and the page size 10, so that the window starts at or beyond the number
  of items: List returns no item and no error, and the right number of items, but the
  early return leaves the number of pages, the page and the page size at zero, where
  \<open>ceil (1 / 10) = 1\<close> page was to be reported. Page 1 of the same store reports 1 page.
\<close>

theorem List_beyond_range_result:
  "List ex_store_one [''a''] insertionSort Background (ex_opts\<lparr>opt_Page := 2\<rparr>) =
     Inr \<lparr>Items = [], Page = 0, PageSize = 0, TotalItems = 1, TotalPages = 0\<rparr>
   \<and> List ex_store_one [''a''] insertionSort Background ex_opts =
     Inr \<lparr>Items = [ex_order_a], Page = 1, PageSize = 10, TotalItems = 1, TotalPages = 1\<rparr>"
  by (simp add: List_def paginate_def ex_store_one_def ex_opts_def ex_order_a_def
        ex_line_def ctxErr_def List.map_filter_def listKeeps_def insertionSort_def
        createdAfter_def Let_def go_div_def cloneOrder_def cloneMap_def signed_divide_int_def)

section \<open>The status state machine and UpdatedStatus\<close>

text \<open>The transition predicate holds on the five edges and nowhere else.\<close>

lemma isTransitionAllowed_iff:
  "isTransitionAllowed f t \<longleftrightarrow>
     (f, t) \<in> {(StatusPending, StatusConfirmed), (StatusPending, StatusCanceled),
               (StatusConfirmed, StatusShipped), (StatusConfirmed, StatusCanceled),
               (StatusShipped, StatusDelivered)}"
  by (auto simp add: isTransitionAllowed_def StatusPending_def StatusConfirmed_def
      StatusShipped_def StatusDelivered_def StatusCanceled_def)

lemma terminal_no_edges:
  "\<not> isTransitionAllowed StatusDelivered t" "\<not> isTransitionAllowed StatusCanceled t"
  by (simp_all add: isTransitionAllowed_def StatusPending_def StatusConfirmed_def
      StatusShipped_def StatusDelivered_def StatusCanceled_def)

text \<open>
  C4 at an input where the code departs from it. The stored order \<open>a\<close> has version 1.
  With the expected version 7 the method returns the zero order and no error, not
  ErrConflict; with the expected version 1 and the allowed edge PENDING to CONFIRMED it
  returns the zero order, whose version is 0, and the store is as it was: no version is
  incremented.
\<close>

theorem UpdatedStatus_ignores_version:
  "orders ex_store ''a'' = Some ex_order_a \<and> Version ex_order_a = 1
   \<and> UpdatedStatus ex_store Background ''a'' StatusConfirmed (Some 7) = (Inr zeroOrder, ex_store)
   \<and> fst (UpdatedStatus ex_store Background ''a'' StatusConfirmed (Some 7)) \<noteq> Inl ErrConflict
   \<and> isTransitionAllowed (Status ex_order_a) StatusConfirmed
   \<and> UpdatedStatus ex_store Background ''a'' StatusConfirmed (Some 1) = (Inr zeroOrder, ex_store)
   \<and> Version zeroOrder = 0"
  by (simp add: UpdatedStatus_def ex_store_def ex_order_a_def zeroOrder_def
      isTransitionAllowed_def StatusPending_def StatusConfirmed_def StatusCanceled_def)

text \<open>
  C5 at an input where the code departs from it. The stored order \<open>a\<close> is PENDING and
  the predicate rejects the edge PENDING to DELIVERED, but the method does not consult
  it: it returns the zero order and no error, not ErrInvalidState.
\<close>

theorem UpdatedStatus_ignores_state_machine:
  "orders ex_store ''a'' = Some ex_order_a \<and> Status ex_order_a = StatusPending
   \<and> \<not> isTransitionAllowed StatusPending StatusDelivered
   \<and> UpdatedStatus ex_store Background ''a'' StatusDelivered None = (Inr zeroOrder, ex_store)
   \<and> fst (UpdatedStatus ex_store Background ''a'' StatusDelivered None) \<noteq> Inl ErrInvalidState"
  by (simp add: UpdatedStatus_def ex_store_def ex_order_a_def
      isTransitionAllowed_def StatusPending_def StatusConfirmed_def StatusCanceled_def
      StatusDelivered_def)

section \<open>Cancelled contexts\<close>

text \<open>Create, Get and List answer a cancelled or expired context with its error.\<close>

lemma Create_cancelled:
  "ctx_Err ctx = Some err \<Longrightarrow> Create s ctx nid now o' key = (Inl err, s)"
  by (simp add: Create_def Create_prepare_def)

lemma Get_cancelled:
  "ctx_Err ctx = Some err \<Longrightarrow> Get s ctx id' includeDeleted = Inl err"
  by (cases ctx) (simp_all add: Get_def ctxErr_def)

lemma List_cancelled:
  "ctx_Err ctx = Some err \<Longrightarrow> List s rangeKeys sortSlice ctx opts = Inl err"
  by (cases ctx) (simp_all add: List_def ctxErr_def)

text \<open>
  C9 at an input where the code departs from it. With a cancelled context the method
  UpdatedStatus returns the zero order and no error, where the context's error Canceled
  was to be returned.
\<close>

theorem UpdatedStatus_ignores_cancellation:
  "UpdatedStatus ex_store CtxCanceled ''a'' StatusConfirmed None = (Inr zeroOrder, ex_store)
   \<and> ctx_Err CtxCanceled = Some Canceled
   \<and> fst (UpdatedStatus ex_store CtxCanceled ''a'' StatusConfirmed None) \<noteq> Inl Canceled"
  by (simp add: UpdatedStatus_def)

end
